theory Spec2Isabelle
  imports Main
begin

section \<open>JavaScript values used by the Worker node\<close>

text \<open>
  The node is TypeScript (\<^verbatim>\<open>packages/components/nodes/langgraph/Worker/Worker.ts\<close>).
  A value that may be missing is a \<open>nullable\<close>: \<^verbatim>\<open>undefined\<close>, \<^verbatim>\<open>null\<close> or a value.
  Strings are lists of 8-bit code units.
\<close>

datatype 'a nullable = Undefined | Null | Val 'a

text \<open>Truthiness of a possibly missing string: only a non-empty string is truthy.\<close>

fun truthy :: "string nullable \<Rightarrow> bool" where
  "truthy Undefined = False"
| "truthy Null = False"
| "truthy (Val s) = (s \<noteq> [])"

text \<open>\<^verbatim>\<open>ToString\<close> of a possibly missing string, as string concatenation applies it.\<close>

fun toString :: "string nullable \<Rightarrow> string" where
  "toString Undefined = ''undefined''"
| "toString Null = ''null''"
| "toString (Val s) = s"

text \<open>\<^verbatim>\<open>ToString\<close> of a non-negative integer (an array length): its decimal digits.\<close>

definition digitChar :: "nat \<Rightarrow> char" where
  "digitChar d = char_of (48 + d)"

fun numberToString :: "nat \<Rightarrow> string" where
  "numberToString n =
     (if n < 10 then [digitChar n] else numberToString (n div 10) @ [digitChar (n mod 10)])"

text \<open>\<^verbatim>\<open>Array.prototype.join\<close> on an array of strings.\<close>

fun join :: "string \<Rightarrow> string list \<Rightarrow> string" where
  "join sep [] = []"
| "join sep [x] = x"
| "join sep (x # y # ys) = x @ sep @ join sep (y # ys)"

subsection \<open>Numbers and \<^verbatim>\<open>parseFloat\<close>\<close>

text \<open>
  A number is \<^verbatim>\<open>NaN\<close>, a signed infinity, or a finite double \<open>n * 2 ^ p\<close> with its
  sign; the flag is \<open>True\<close> for a minus sign. Finite values are kept in the normal form
  where \<open>n\<close> is odd, or \<open>n = 0\<close> and \<open>p = 0\<close>, so that equal values are equal terms.
\<close>

datatype jsnumber = NaN | Infinity bool | Finite bool nat int

text \<open>The number of binary digits of a natural number.\<close>

fun bitLength :: "nat \<Rightarrow> nat" where
  "bitLength n = (if n = 0 then 0 else Suc (bitLength (n div 2)))"

text \<open>The quotient \<open>a / b\<close> rounded to the nearest integer, ties to the even one.\<close>

definition roundHalfEven :: "nat \<Rightarrow> nat \<Rightarrow> nat" where
  "roundHalfEven a b =
     (let q = a div b; r = a mod b
      in if 2 * r < b then q else if b < 2 * r then q + 1 else if even q then q else q + 1)"

fun normalise :: "nat \<Rightarrow> int \<Rightarrow> nat \<times> int" where
  "normalise n p = (if n = 0 then (0, 0) else if even n then normalise (n div 2) (p + 1) else (n, p))"

text \<open>
  The double nearest to the decimal \<open>m * 10 ^ e\<close> (round to nearest, ties to even). The
  decimal is the fraction \<open>a / b\<close>; \<open>lg\<close> is the integer part of its binary logarithm; the
  significand has 53 bits, fewer below the smallest normal double (\<open>p\<close> is never below
  \<open>- 1074\<close>), and a rounded value of \<open>2 ^ 1024\<close> or more is an infinity.
\<close>

definition roundToDouble :: "bool \<Rightarrow> nat \<Rightarrow> int \<Rightarrow> jsnumber" where
  "roundToDouble neg m e =
     (let a = (if 0 \<le> e then m * 10 ^ nat e else m);
          b = (if 0 \<le> e then 1 else 10 ^ nat (- e));
          d = int (bitLength a) - int (bitLength b);
          lg = (if (if 0 \<le> d then b * 2 ^ nat d \<le> a else b \<le> a * 2 ^ nat (- d)) then d else d - 1);
          p = max (lg - 52) (- 1074);
          n = (if 0 \<le> p then roundHalfEven a (b * 2 ^ nat p) else roundHalfEven (a * 2 ^ nat (- p)) b)
      in if m = 0 then Finite neg 0 0
         else if 1024 < int (bitLength n) + p then Infinity neg
         else (case normalise n p of (n', p') \<Rightarrow> Finite neg n' p'))"

definition isWhiteSpace :: "char \<Rightarrow> bool" where
  "isWhiteSpace c = (of_char c \<in> {9, 10, 11, 12, 13, 32, 160 :: nat})"

definition isDigit :: "char \<Rightarrow> bool" where
  "isDigit c = (48 \<le> (of_char c :: nat) \<and> (of_char c :: nat) \<le> 57)"

definition digitsValue :: "string \<Rightarrow> nat" where
  "digitsValue ds = foldl (\<lambda>a c. 10 * a + (of_char c - 48)) 0 ds"

text \<open>An optional sign in front of a literal: the flag and the rest of the text.\<close>

fun signOf :: "string \<Rightarrow> bool \<times> string" where
  "signOf (c # cs) =
     (if c = CHR ''-'' then (True, cs) else if c = CHR ''+'' then (False, cs) else (False, c # cs))"
| "signOf [] = (False, [])"

text \<open>
  The exponent part after the mantissa: \<^verbatim>\<open>e\<close> or \<^verbatim>\<open>E\<close>, an optional sign and at least
  one digit; anything else is not part of the literal and counts as exponent 0.
\<close>

fun exponentPart :: "string \<Rightarrow> int" where
  "exponentPart (c # cs) =
     (if c = CHR ''e'' \<or> c = CHR ''E'' then
        (case signOf cs of (neg, ds) \<Rightarrow>
           (let e = takeWhile isDigit ds in
            if e = [] then 0
            else if neg then - int (digitsValue e) else int (digitsValue e)))
      else 0)"
| "exponentPart [] = 0"

text \<open>
  \<^verbatim>\<open>parseFloat\<close>: leading white space is dropped, then the longest prefix that is a
  decimal literal is read and rounded to a double; no such prefix gives \<^verbatim>\<open>NaN\<close>.
\<close>

definition parseFloat :: "string \<Rightarrow> jsnumber" where
  "parseFloat s =
     (case signOf (dropWhile isWhiteSpace s) of (neg, u) \<Rightarrow>
        if take 8 u = ''Infinity'' then Infinity neg
        else
          (let ip = takeWhile isDigit u;
               r1 = dropWhile isDigit u;
               fp = (case r1 of c # r \<Rightarrow> if c = CHR ''.'' then takeWhile isDigit r else [] | [] \<Rightarrow> []);
               r2 = (case r1 of c # r \<Rightarrow> if c = CHR ''.'' then dropWhile isDigit r else r1 | [] \<Rightarrow> [])
           in if ip = [] \<and> fp = [] then NaN
              else roundToDouble neg (digitsValue (ip @ fp)) (exponentPart r2 - int (length fp))))"

section \<open>Tools, models and the compiled agent\<close>

datatype schema = Schema string

record tool =
  tool_name :: string
  tool_description :: string
  tool_schema :: schema

text \<open>
  \<^verbatim>\<open>convertToOpenAITool\<close> of the language-model library: a function entry carrying the
  tool's name, its description and its schema converted to JSON schema (the conversion is
  kept symbolic).
\<close>

datatype json_schema = ZodToJsonSchema schema

record openai_function =
  fn_name :: string
  fn_description :: string
  fn_parameters :: json_schema

record openai_tool =
  tool_type :: string
  tool_function :: openai_function

definition convertToOpenAITool :: "tool \<Rightarrow> openai_tool" where
  "convertToOpenAITool t =
     \<lparr>tool_type = ''function'',
      tool_function = \<lparr>fn_name = tool_name t, fn_description = tool_description t,
                       fn_parameters = ZodToJsonSchema (tool_schema t)\<rparr>\<rparr>"

datatype llm = ChatOpenAI string | OllamaFunctions string

record bind_kwargs =
  kw_tools :: "openai_tool list nullable"

text \<open>A model handle, bare or bound with call options by \<^verbatim>\<open>llm.bind\<close>.\<close>

datatype model_runnable = Model llm | RunnableBinding llm bind_kwargs

definition bind :: "llm \<Rightarrow> bind_kwargs \<Rightarrow> model_runnable" where
  "bind l kw = RunnableBinding l kw"

datatype prompt_message = MessageTemplate string string | MessagesPlaceholder string

datatype runnable =
    AssignAgentScratchpad
  | Prompt "prompt_message list"
  | ModelWithTools model_runnable
  | OpenAIToolsAgentOutputParser

text \<open>The fields handed to \<^verbatim>\<open>AgentExecutor.fromAgentAndTools\<close>.\<close>

record agent_executor_input =
  opt_agent :: "runnable list"
  opt_tools :: "tool list"
  opt_verbose :: bool
  opt_maxIterations :: "jsnumber nullable"

text \<open>
  The executor that \<^verbatim>\<open>AgentExecutor.fromAgentAndTools\<close> builds is kept symbolic: it is
  known by the fields it was built from. What the executor makes of these fields (the
  cap it derives from the \<^verbatim>\<open>maxIterations\<close> option, how it runs) is not part of this
  definition.
\<close>

datatype agent_executor = AgentExecutor (executorInput: agent_executor_input)

definition fromAgentAndTools :: "agent_executor_input \<Rightarrow> agent_executor" where
  "fromAgentAndTools input_fields = AgentExecutor input_fields"

datatype error = Error string | TypeError

subsection \<open>Prompt templates\<close>

text \<open>
  The prompt library reads a message template as an f-string when the prompt is built:
  doubled braces are literal braces, \<^verbatim>\<open>{name}\<close> is a variable, and an opening brace that
  is never closed or a single closing brace makes it throw.
\<close>

datatype fstring_node = Literal string | Variable string

definition notBrace :: "char \<Rightarrow> bool" where
  "notBrace c = (c \<noteq> CHR ''{'' \<and> c \<noteq> CHR ''}'')"

definition notClose :: "char \<Rightarrow> bool" where
  "notClose c = (c \<noteq> CHR ''}'')"

function parseFString :: "string \<Rightarrow> error + fstring_node list" where
  "parseFString [] = Inr []"
| "parseFString (c # cs) =
     (if c = CHR ''{'' \<and> cs \<noteq> [] \<and> hd cs = CHR ''{''
        then map_sum id ((#) (Literal ''{'')) (parseFString (tl cs))
      else if c = CHR ''}'' \<and> cs \<noteq> [] \<and> hd cs = CHR ''}''
        then map_sum id ((#) (Literal ''}'')) (parseFString (tl cs))
      else if c = CHR ''{''
        then (if CHR ''}'' \<notin> set cs then Inl (Error ''Unclosed '{' in template.'')
              else map_sum id ((#) (Variable (takeWhile notClose cs)))
                     (parseFString (tl (dropWhile notClose cs))))
      else if c = CHR ''}''
        then Inl (Error ''Single '}' in template.'')
      else map_sum id ((#) (Literal (c # takeWhile notBrace cs))) (parseFString (dropWhile notBrace cs)))"
  by pat_completeness auto
termination
proof (relation "measure length")
  fix c :: char and cs :: string
  have le: "\<And>P. length (dropWhile P cs) \<le> length cs" by (rule length_dropWhile_le)
  show "wf (measure (length :: string \<Rightarrow> nat))" by simp
  show "(tl cs, c # cs) \<in> measure length" by (cases cs) simp_all
  show "(tl cs, c # cs) \<in> measure length" by (cases cs) simp_all
  show "(tl (dropWhile notClose cs), c # cs) \<in> measure length"
    using le[of notClose] by simp
  show "(dropWhile notBrace cs, c # cs) \<in> measure length"
    using le[of notBrace] by simp
qed

subsection \<open>\<^verbatim>\<open>createAgent\<close>\<close>

definition combinedPrompt :: "string nullable \<Rightarrow> string" where
  "combinedPrompt systemPrompt =
     toString systemPrompt
     @ ''\<newline>Work autonomously according to your specialty, using the tools available to you.''
     @ '' Do not ask for clarification.''
     @ '' Your other team members (and other teams) will collaborate with you with their own specialties.''
     @ '' You are chosen for a reason! You are one of the following team members: {team_members}.''"

definition toolNames :: "tool list \<Rightarrow> string" where
  "toolNames tools = (if length tools \<noteq> 0 then join '', '' (map tool_name tools) else '''')"

text \<open>
  The text of the trailing system message. In the source the conditional operator binds
  weaker than \<^verbatim>\<open>+\<close>: its condition is the string
  \<^verbatim>\<open>'Supervisor instructions: {instructions}\n' + tools.length\<close>, and its else-branch is
  \<^verbatim>\<open>'' + '\n\nEnd if ...'\<close>. The one-element array is then joined with a newline.
\<close>

definition trailingSystemMessage :: "tool list \<Rightarrow> string" where
  "trailingSystemMessage tools =
     join ''\<newline>''
       [if truthy (Val (''Supervisor instructions: {instructions}\<newline>'' @ numberToString (length tools)))
        then ''Remember, you individually can only use these tools: '' @ toolNames tools
        else '''' @ ''\<newline>\<newline>End if you have already completed the requested task. Communicate the work completed.'']"

text \<open>The argument of \<^verbatim>\<open>ChatPromptTemplate.fromMessages\<close>.\<close>

definition prompt :: "tool list \<Rightarrow> string nullable \<Rightarrow> prompt_message list" where
  "prompt tools systemPrompt =
     [MessageTemplate ''system'' (combinedPrompt systemPrompt),
      MessagesPlaceholder ''messages'',
      MessagesPlaceholder ''agent_scratchpad'',
      MessageTemplate ''system'' (trailingSystemMessage tools)]"

text \<open>
  \<^verbatim>\<open>ChatPromptTemplate.fromMessages\<close> reads the message templates in order and throws at
  the first one that cannot be read; the prompt it returns holds the messages.
\<close>

fun fromMessages :: "prompt_message list \<Rightarrow> error + prompt_message list" where
  "fromMessages [] = Inr []"
| "fromMessages (MessageTemplate role t # ms) =
     (case parseFString t of
        Inl e \<Rightarrow> Inl e
      | Inr nodes \<Rightarrow> map_sum id ((#) (MessageTemplate role t)) (fromMessages ms))"
| "fromMessages (MessagesPlaceholder v # ms) =
     map_sum id ((#) (MessagesPlaceholder v)) (fromMessages ms)"

text \<open>The model binding; \<^verbatim>\<open>llm.bind\<close> on a missing handle is a \<^verbatim>\<open>TypeError\<close>.\<close>

definition modelWithTools :: "llm nullable \<Rightarrow> tool list \<Rightarrow> error + model_runnable" where
  "modelWithTools l tools =
     (case l of
        Val m \<Rightarrow>
          if length tools \<noteq> 0 then Inr (bind m \<lparr>kw_tools = Val (map convertToOpenAITool tools)\<rparr>)
          else Inr (bind m \<lparr>kw_tools = Undefined\<rparr>)
      | _ \<Rightarrow> Inl TypeError)"

text \<open>The \<^verbatim>\<open>maxIterations\<close> option handed to the executor.\<close>

definition maxIterationsOption :: "string nullable \<Rightarrow> jsnumber nullable" where
  "maxIterationsOption maxIterations =
     (if truthy maxIterations then Val (parseFloat (toString maxIterations)) else Undefined)"

text \<open>
  \<^verbatim>\<open>createAgent\<close>, in the order of the source: the prompt is built (and may throw), the
  model is bound (and throws on a missing handle), the executor is built from the agent,
  the tools, the verbosity flag and the \<^verbatim>\<open>maxIterations\<close> option. \<open>debug\<close> is the
  environment variable \<^verbatim>\<open>DEBUG\<close> of the process.
\<close>

definition createAgent ::
  "string nullable \<Rightarrow> llm nullable \<Rightarrow> tool list \<Rightarrow> string nullable \<Rightarrow> string nullable
     \<Rightarrow> error + agent_executor" where
  "createAgent debug l tools systemPrompt maxIterations =
     (case fromMessages (prompt tools systemPrompt) of
        Inl e \<Rightarrow> Inl e
      | Inr p \<Rightarrow>
          (case modelWithTools l tools of
             Inl e \<Rightarrow> Inl e
           | Inr m \<Rightarrow>
               Inr (fromAgentAndTools
                     \<lparr>opt_agent = [AssignAgentScratchpad, Prompt p, ModelWithTools m,
                                   OpenAIToolsAgentOutputParser],
                      opt_tools = tools,
                      opt_verbose = (if debug = Val ''true'' then True else False),
                      opt_maxIterations = maxIterationsOption maxIterations\<rparr>)))"

section \<open>The Worker node\<close>

text \<open>
  The \<^verbatim>\<open>tools\<close> input is a list whose entries are tools or lists of tools;
  \<^verbatim>\<open>flatten\<close> removes one level of nesting and maps a missing array to the empty one.
\<close>

datatype tool_entry = One tool | Many "tool list"

fun flatten :: "tool_entry list nullable \<Rightarrow> tool list" where
  "flatten (Val xs) = concat (map (\<lambda>e. case e of One t \<Rightarrow> [t] | Many ts \<Rightarrow> ts) xs)"
| "flatten Undefined = []"
| "flatten Null = []"

record supervisor =
  sup_llm :: "llm nullable"
  sup_name :: "string nullable"

record node_inputs =
  in_tools :: "tool_entry list nullable"
  in_workerPrompt :: "string nullable"
  in_workerName :: "string nullable"
  in_supervisor :: "supervisor nullable"
  in_maxIterations :: "string nullable"

record node_data =
  inputs :: "node_inputs nullable"

text \<open>\<^verbatim>\<open>nodeData.inputs?.f\<close>: \<^verbatim>\<open>undefined\<close> when \<^verbatim>\<open>inputs\<close> is missing.\<close>

definition input :: "node_data \<Rightarrow> (node_inputs \<Rightarrow> 'a nullable) \<Rightarrow> 'a nullable" where
  "input nodeData f = (case inputs nodeData of Val i \<Rightarrow> f i | Undefined \<Rightarrow> Undefined | Null \<Rightarrow> Undefined)"

text \<open>The operator \<^verbatim>\<open>??\<close>.\<close>

fun nullish :: "'a nullable \<Rightarrow> 'a \<Rightarrow> 'a" where
  "nullish Undefined d = d"
| "nullish Null d = d"
| "nullish (Val v) d = v"

text \<open>
  The closure \<^verbatim>\<open>workerNode\<close> is represented by the two variables it captures, the
  compiled agent and the worker name. The returned object's fields \<^verbatim>\<open>node\<close>, \<^verbatim>\<open>name\<close>
  and \<^verbatim>\<open>type\<close> are \<open>out_node\<close>, \<open>out_name\<close> and \<open>out_type\<close>.
\<close>

record worker_node =
  wn_agent :: agent_executor
  wn_name :: string

record multi_agent_node =
  out_node :: worker_node
  out_name :: string
  out_type :: string
  parentSupervisorName :: string

text \<open>
  \<^verbatim>\<open>init\<close>: a thrown error is the left summand. Reading \<^verbatim>\<open>supervisor.llm\<close> of a missing
  supervisor is a \<^verbatim>\<open>TypeError\<close>; the copy \<^verbatim>\<open>[...tools]\<close> is the same list of tools.
\<close>

definition init :: "string nullable \<Rightarrow> node_data \<Rightarrow> error + multi_agent_node" where
  "init debug nodeData =
     (let tools = flatten (input nodeData in_tools);
          workerPrompt = input nodeData in_workerPrompt;
          workerName = input nodeData in_workerName;
          supervisor = input nodeData in_supervisor;
          maxIterations = input nodeData in_maxIterations
      in if \<not> truthy workerName then Inl (Error ''Worker name is required!'')
         else
           (case supervisor of
              Val s \<Rightarrow>
                (case createAgent debug (sup_llm s) tools workerPrompt maxIterations of
                   Inl e \<Rightarrow> Inl e
                 | Inr agent \<Rightarrow>
                     Inr \<lparr>out_node = \<lparr>wn_agent = agent, wn_name = toString workerName\<rparr>,
                          out_name = toString workerName,
                          out_type = ''worker'',
                          parentSupervisorName = nullish (sup_name s) ''supervisor''\<rparr>)
            | Undefined \<Rightarrow> Inl TypeError
            | Null \<Rightarrow> Inl TypeError))"

subsection \<open>Team state and the executor's interface\<close>

text \<open>
  Modelled from the spec: the team state \<^verbatim>\<open>ITeamState\<close> and its messages (declared in
  \<^verbatim>\<open>src/Interface\<close>, which is not among the sources): an ordered sequence of attributed
  messages, the supervisor's instructions and the team members.
\<close>

datatype message_type = Human | AI | System

record base_message =
  msg_type :: message_type
  content :: string
  msg_name :: "string nullable"

record team_state =
  messages :: "base_message list"
  instructions :: string
  team_members :: "string list"

text \<open>
  Modelled from the spec: the result of \<^verbatim>\<open>AgentExecutor.invoke\<close> (\<^verbatim>\<open>src/agents\<close>, which
  is not among the sources): the answer text and the marker that tells a forced stop from
  a natural finish.
\<close>

record exec_result =
  result_output :: string
  forced_stop :: bool

datatype runnable_config = RunnableConfig "string list"

text \<open>
  Team states are objects owned by the caller and passed by reference: a store maps
  references to them. The executor's \<^verbatim>\<open>invoke\<close> is a parameter; it gets the reference
  and the store, and returns its result (or the error it throws) with the store it leaves.
\<close>

type_synonym store = "nat \<Rightarrow> team_state option"

type_synonym invoke =
  "agent_executor \<Rightarrow> nat \<Rightarrow> runnable_config \<Rightarrow> store \<Rightarrow> (error + exec_result) \<times> store"

record state_delta =
  delta_messages :: "base_message list"

definition HumanMessage :: "string \<Rightarrow> string \<Rightarrow> base_message" where
  "HumanMessage c n = \<lparr>msg_type = Human, content = c, msg_name = Val n\<rparr>"

definition agentNode ::
  "invoke \<Rightarrow> nat \<times> agent_executor \<times> string \<Rightarrow> runnable_config \<Rightarrow> store
     \<Rightarrow> (error + state_delta) \<times> store" where
  "agentNode invoke args config \<sigma> =
     (case args of (state, agent, name) \<Rightarrow>
        (case invoke agent state config \<sigma> of
           (Inl e, \<sigma>') \<Rightarrow> (Inl e, \<sigma>')
         | (Inr result, \<sigma>') \<Rightarrow>
             (Inr \<lparr>delta_messages = [HumanMessage (result_output result) name]\<rparr>, \<sigma>')))"

definition workerNode ::
  "invoke \<Rightarrow> worker_node \<Rightarrow> nat \<Rightarrow> runnable_config \<Rightarrow> store \<Rightarrow> (error + state_delta) \<times> store" where
  "workerNode invoke w state config \<sigma> = agentNode invoke (state, wn_agent w, wn_name w) config \<sigma>"

text \<open>
  Modelled from the spec: how the graph engine (not among the sources) folds a delta into
  the team state: the delta's messages are appended to the history.
\<close>

definition applyDelta :: "team_state \<Rightarrow> state_delta \<Rightarrow> team_state" where
  "applyDelta s d = s\<lparr>messages := messages s @ delta_messages d\<rparr>"

subsection \<open>The executor's loop\<close>

text \<open>
  Modelled from the spec: the loop of \<^verbatim>\<open>AgentExecutor\<close> (\<^verbatim>\<open>src/agents\<close>, which is not
  among the sources), after the loop semantics of the Agent Compiler: while the scratchpad
  is shorter than a finite cap, the model is invoked once on the history and the
  scratchpad; a failing model call ends the invocation with its error; a final answer
  ends the loop normally; a tool request is dispatched call by call, each observation
  being a value or an error text, and the step is appended. When the scratchpad length
  reaches the cap, the loop stops with the last model output, flagged as a forced stop.
  The third component of the result counts the model invocations (rounds).
\<close>

datatype tool_call = ToolCall string string

datatype action = ToolInvocation "tool_call list" | FinalAnswer string

record conversation_step =
  step_action :: action
  step_observation :: "string list"

datatype loop_result = NaturalFinish string | ForcedStop "action option"

definition lastAction :: "conversation_step list \<Rightarrow> action option" where
  "lastAction steps = (if steps = [] then None else Some (step_action (last steps)))"

definition capReached :: "nat option \<Rightarrow> conversation_step list \<Rightarrow> bool" where
  "capReached cap steps = (case cap of None \<Rightarrow> False | Some k \<Rightarrow> k \<le> length steps)"

partial_function (option) runLoop ::
  "(team_state \<Rightarrow> conversation_step list \<Rightarrow> error + action) \<Rightarrow> (tool_call \<Rightarrow> string)
     \<Rightarrow> nat option \<Rightarrow> team_state \<Rightarrow> conversation_step list \<Rightarrow> nat
     \<Rightarrow> (error + loop_result \<times> conversation_step list \<times> nat) option" where
  "runLoop model dispatch cap history scratchpad rounds =
     (if capReached cap scratchpad
      then Some (Inr (ForcedStop (lastAction scratchpad), scratchpad, rounds))
      else
        (case model history scratchpad of
           Inl e \<Rightarrow> Some (Inl e)
         | Inr (FinalAnswer a) \<Rightarrow> Some (Inr (NaturalFinish a, scratchpad, Suc rounds))
         | Inr (ToolInvocation calls) \<Rightarrow>
             runLoop model dispatch cap history
               (scratchpad @ [\<lparr>step_action = ToolInvocation calls,
                               step_observation = map dispatch calls\<rparr>])
               (Suc rounds)))"

text \<open>
  Modelled from the spec: how the executor (\<^verbatim>\<open>src/agents\<close>, which is not among the
  sources) surfaces the outcome of its loop as the result of \<^verbatim>\<open>invoke\<close>: on a natural
  finish the final answer, on a forced stop the last model output together with the
  marker of the forced stop. \<open>render\<close> is the text the executor reports for the last model
  output.
\<close>

definition resultOf :: "(action option \<Rightarrow> string) \<Rightarrow> loop_result \<Rightarrow> exec_result" where
  "resultOf render r =
     (case r of
        NaturalFinish a \<Rightarrow> \<lparr>result_output = a, forced_stop = False\<rparr>
      | ForcedStop l \<Rightarrow> \<lparr>result_output = render l, forced_stop = True\<rparr>)"

text \<open>
  Modelled from the spec: \<^verbatim>\<open>AgentExecutor.invoke\<close> (\<^verbatim>\<open>src/agents\<close>, which is not among
  the sources) as the worker node calls it. The executor is stateless, gets the team state
  behind the reference as its history input, and never mutates that history in place: its
  result (or the error of a failed model call) is computed from the snapshot by \<open>run\<close>,
  which stands for the loop with its model and tools, and the store is left as it is.
\<close>

definition executorInvoke ::
  "(agent_executor \<Rightarrow> team_state option \<Rightarrow> runnable_config \<Rightarrow> error + exec_result) \<Rightarrow> invoke" where
  "executorInvoke run agent state config \<sigma> = (run agent (\<sigma> state) config, \<sigma>)"

section \<open>Example inputs\<close>

definition searchTool :: tool where
  "searchTool = \<lparr>tool_name = ''search'', tool_description = ''Web search'', tool_schema = Schema ''query''\<rparr>"

definition calculatorTool :: tool where
  "calculatorTool =
     \<lparr>tool_name = ''calculator'', tool_description = ''Arithmetic'', tool_schema = Schema ''expression''\<rparr>"

definition exampleSupervisor :: supervisor where
  "exampleSupervisor = \<lparr>sup_llm = Val (ChatOpenAI ''gpt-4''), sup_name = Undefined\<rparr>"

definition exampleInputs :: node_inputs where
  "exampleInputs =
     \<lparr>in_tools = Val [One searchTool],
      in_workerPrompt = Val ''You are a research assistant.'',
      in_workerName = Val ''researcher'',
      in_supervisor = Val exampleSupervisor,
      in_maxIterations = Val ''2''\<rparr>"

definition exampleNodeData :: node_data where
  "exampleNodeData = \<lparr>inputs = Val exampleInputs\<rparr>"

definition exampleOut :: multi_agent_node where
  "exampleOut = projr (init Undefined exampleNodeData)"

definition exampleState :: team_state where
  "exampleState =
     \<lparr>messages = [\<lparr>msg_type = Human, content = ''Please summarize: ...'', msg_name = Undefined\<rparr>],
      instructions = ''Summarize the given text'',
      team_members = [''researcher'']\<rparr>"

definition exampleStore :: store where
  "exampleStore = (\<lambda>r. if r = 0 then Some exampleState else None)"

text \<open>An executor stub that returns a fixed result and leaves the store as it is.\<close>

definition answering :: "string \<Rightarrow> bool \<Rightarrow> invoke" where
  "answering text forced = (\<lambda>agent state config \<sigma>. (Inr \<lparr>result_output = text, forced_stop = forced\<rparr>, \<sigma>))"

text \<open>A model stub that requests the search tool on every round.\<close>

definition alwaysSearch :: "team_state \<Rightarrow> conversation_step list \<Rightarrow> error + action" where
  "alwaysSearch history scratchpad = Inr (ToolInvocation [ToolCall ''search'' ''latest news''])"

definition echoDispatch :: "tool_call \<Rightarrow> string" where
  "echoDispatch c = (case c of ToolCall n i \<Rightarrow> n @ '': '' @ i)"

text \<open>
  The text reported when the loop stops at the cap, a model stub whose final answer is
  that same text, and a run that returns a given result.
\<close>

definition stoppedText :: string where
  "stoppedText = ''Agent stopped due to max iterations.''"

definition renderStopped :: "action option \<Rightarrow> string" where
  "renderStopped l = stoppedText"

definition answerStopped :: "team_state \<Rightarrow> conversation_step list \<Rightarrow> error + action" where
  "answerStopped history scratchpad = Inr (FinalAnswer stoppedText)"

definition returning ::
  "exec_result \<Rightarrow> agent_executor \<Rightarrow> team_state option \<Rightarrow> runnable_config \<Rightarrow> error + exec_result" where
  "returning r agent snapshot config = Inr r"

definition searchAction :: action where
  "searchAction = ToolInvocation [ToolCall ''search'' ''latest news'']"

section \<open>Auxiliary facts\<close>

lemma fromMessages_Inr: "fromMessages ms = Inr p \<Longrightarrow> p = ms"
proof (induction ms arbitrary: p rule: fromMessages.induct)
  case 1
  then show ?case by simp
next
  case (2 role t ms)
  then show ?case
    by (cases "parseFString t"; cases "fromMessages ms") auto
next
  case (3 v ms)
  then show ?case
    by (cases "fromMessages ms") auto
qed

lemma createAgent_Val:
  "createAgent debug (Val l) tools systemPrompt maxIterations =
     (case fromMessages (prompt tools systemPrompt) of
        Inl e \<Rightarrow> Inl e
      | Inr p \<Rightarrow>
          Inr (AgentExecutor
            \<lparr>opt_agent = [AssignAgentScratchpad, Prompt (prompt tools systemPrompt),
                          ModelWithTools (RunnableBinding l
                            \<lparr>kw_tools = (if tools = [] then Undefined else Val (map convertToOpenAITool tools))\<rparr>),
                          OpenAIToolsAgentOutputParser],
             opt_tools = tools,
             opt_verbose = (debug = Val ''true''),
             opt_maxIterations = maxIterationsOption maxIterations\<rparr>))"
  by (cases "fromMessages (prompt tools systemPrompt)")
     (auto simp: createAgent_def modelWithTools_def bind_def fromAgentAndTools_def dest: fromMessages_Inr)

lemma parseFString_not_name_error: "parseFString t \<noteq> Inl (Error ''Worker name is required!'')"
proof (induction t rule: parseFString.induct)
  case 1
  then show ?case by simp
next
  case (2 c cs)
  show ?case
  proof
    assume a: "parseFString (c # cs) = Inl (Error ''Worker name is required!'')"
    then show False using 2
      by (auto simp: map_sum_def split: if_splits sum.splits)
  qed
qed

lemma fromMessages_not_name_error: "fromMessages ms \<noteq> Inl (Error ''Worker name is required!'')"
proof (induction ms rule: fromMessages.induct)
  case 1
  then show ?case by simp
next
  case (2 role t ms)
  then show ?case
    using parseFString_not_name_error[of t]
    by (cases "parseFString t"; cases "fromMessages ms") auto
next
  case (3 v ms)
  then show ?case by (cases "fromMessages ms") auto
qed

lemma createAgent_not_name_error:
  "createAgent debug l tools systemPrompt maxIterations \<noteq> Inl (Error ''Worker name is required!'')"
  using fromMessages_not_name_error[of "prompt tools systemPrompt"]
  by (cases l; cases "fromMessages (prompt tools systemPrompt)")
     (auto simp: createAgent_def modelWithTools_def)

lemma init_Inr_name:
  "init debug nodeData = Inr out \<Longrightarrow>
     input nodeData in_workerName = Val (out_name out) \<and> wn_name (out_node out) = out_name out"
  by (cases "input nodeData in_workerName")
     (auto simp: init_def Let_def split: nullable.splits sum.splits if_splits)

lemma agentNode_snd:
  "snd (agentNode invoke (state, agent, name) config \<sigma>) = snd (invoke agent state config \<sigma>)"
  by (simp add: agentNode_def split: prod.splits sum.splits)

lemma exampleInput_simps:
  "input exampleNodeData in_workerName = Val ''researcher''"
  "input exampleNodeData in_supervisor = Val exampleSupervisor"
  "input exampleNodeData in_tools = Val [One searchTool]"
  "input exampleNodeData in_workerPrompt = Val ''You are a research assistant.''"
  "input exampleNodeData in_maxIterations = Val ''2''"
  by (simp_all add: input_def exampleNodeData_def exampleInputs_def)


lemma prompt_example:
  "fromMessages (prompt [searchTool] (Val ''You are a research assistant.''))
     = Inr (prompt [searchTool] (Val ''You are a research assistant.''))"
  by (simp add: prompt_def combinedPrompt_def trailingSystemMessage_def toolNames_def searchTool_def
        notBrace_def notClose_def)

lemma prompt_helper:
  assumes "tools = [] \<or> tools = [searchTool] \<or> tools = [searchTool, calculatorTool]"
  shows "fromMessages (prompt tools (Val ''You are a helper.'')) = Inr (prompt tools (Val ''You are a helper.''))"
  using assms
  by (auto simp: prompt_def combinedPrompt_def trailingSystemMessage_def toolNames_def searchTool_def
        calculatorTool_def notBrace_def notClose_def)

lemma init_example: "init Undefined exampleNodeData = Inr exampleOut"
  unfolding exampleOut_def
  by (simp add: init_def Let_def exampleInput_simps exampleSupervisor_def createAgent_Val prompt_example)



text \<open>
  With a model that requests a tool on every round, the loop started below a finite cap
  \<open>k\<close> runs until the scratchpad has \<open>k\<close> steps and then stops, flagged.
\<close>

lemma runLoop_forced:
  assumes always: "\<And>h sp. \<exists>calls. model h sp = Inr (ToolInvocation calls)"
  shows "length sp \<le> k \<Longrightarrow>
    \<exists>steps. runLoop model dispatch (Some k) h sp n
               = Some (Inr (ForcedStop (lastAction steps), steps, n + (k - length sp)))
            \<and> length steps = k"
proof (induction "k - length sp" arbitrary: sp n)
  case 0
  then have "capReached (Some k) sp" by (simp add: capReached_def)
  with 0 show ?case by (subst runLoop.simps) simp
next
  case (Suc d)
  then have nr: "\<not> capReached (Some k) sp" by (simp add: capReached_def)
  obtain calls where m: "model h sp = Inr (ToolInvocation calls)" using always by blast
  let ?sp = "sp @ [\<lparr>step_action = ToolInvocation calls, step_observation = map dispatch calls\<rparr>]"
  have "d = k - length ?sp" "length ?sp \<le> k" using Suc by simp_all
  from Suc.hyps(1)[OF this, of "Suc n"] obtain steps where
    "runLoop model dispatch (Some k) h ?sp (Suc n)
       = Some (Inr (ForcedStop (lastAction steps), steps, Suc n + (k - length ?sp)))"
    "length steps = k" by blast
  moreover have "Suc n + (k - length ?sp) = n + (k - length sp)" using Suc by simp
  ultimately show ?case using nr m by (subst runLoop.simps) simp
qed

text \<open>A forced stop always carries the last action of the scratchpad it returns.\<close>

lemma runLoop_forced_last:
  assumes "runLoop model dispatch cap history scratchpad rounds = Some y"
  shows "\<forall>l steps n. y = Inr (ForcedStop l, steps, n) \<longrightarrow> l = lastAction steps"
  by (rule runLoop.raw_induct
        [where P = "\<lambda>m d c h sp r z. \<forall>l steps n. z = Inr (ForcedStop l, steps, n) \<longrightarrow> l = lastAction steps",
         OF _ assms])
     (auto split: if_splits sum.splits action.splits)

lemma runLoop_search_once:
  "runLoop alwaysSearch echoDispatch (Some 1) exampleState [] 0
     = Some (Inr (ForcedStop (Some searchAction),
                  [\<lparr>step_action = searchAction, step_observation = [''search: latest news'']\<rparr>], 1))"
  by (subst runLoop.simps, simp add: capReached_def alwaysSearch_def,
      subst runLoop.simps, simp add: capReached_def lastAction_def searchAction_def echoDispatch_def)

lemma runLoop_answer_once:
  "runLoop answerStopped echoDispatch (Some 1) exampleState [] 0
     = Some (Inr (NaturalFinish stoppedText, [], 1))"
  by (subst runLoop.simps, simp add: capReached_def answerStopped_def)

section \<open>The trailing system message\<close>

text \<open>
  Claim C1. For an empty tool list the trailing system segment should hold no tool-name
  restatement and collapse to the "End if you have already completed the requested task"
  boilerplate. The code does not do so: whatever the instruction, with no tools the
  trailing segment of the compiled prompt is the restatement sentence with an empty list
  of names, and the boilerplate is absent.
\<close>

theorem empty_tools_trailing_message:
  "last (prompt [] systemPrompt) =
     MessageTemplate ''system'' ''Remember, you individually can only use these tools: ''"
  by (simp add: prompt_def trailingSystemMessage_def toolNames_def)

text \<open>
  Claim C2. The trailing system segment should inject the clause
  "Supervisor instructions: {instructions}" for every toolset and restate the tool names
  exactly when there are tools. The code does not do so: with the one tool \<open>search\<close> the
  segment is the restatement alone, without the clause, and with no tools the restatement
  sentence is still there.
\<close>

theorem trailing_message_drops_instructions:
  "trailingSystemMessage [searchTool] = ''Remember, you individually can only use these tools: search''
   \<and> trailingSystemMessage [] = ''Remember, you individually can only use these tools: ''"
  by (simp add: trailingSystemMessage_def toolNames_def searchTool_def)

section \<open>The iteration cap\<close>




section \<open>Construction\<close>

text \<open>
  Claim C4. Construction fails with the error "Worker name is required!" exactly when the
  worker name is absent or empty. The failure does not depend on the other inputs, so it
  comes before the model handle is read and before the agent is compiled, and an error
  result carries no node to run; with a non-empty worker name this error is not raised.
\<close>

theorem init_workerName_required:
  "(init debug nodeData = Inl (Error ''Worker name is required!''))
     = (input nodeData in_workerName \<in> {Undefined, Null, Val ''''})"
  by (cases "input nodeData in_workerName")
     (auto simp: init_def Let_def createAgent_not_name_error split: nullable.splits sum.splits)

theorem init_workerName_required_witness:
  "init Undefined \<lparr>inputs = Val (exampleInputs\<lparr>in_workerName := Val ''''\<rparr>)\<rparr>
     = Inl (Error ''Worker name is required!'')
   \<and> init Undefined \<lparr>inputs = Undefined\<rparr> = Inl (Error ''Worker name is required!'')
   \<and> init Undefined exampleNodeData \<noteq> Inl (Error ''Worker name is required!'')"
  using init_workerName_required [of Undefined "\<lparr>inputs = Val (exampleInputs\<lparr>in_workerName := Val ''''\<rparr>)\<rparr>"]
    init_workerName_required [of Undefined "\<lparr>inputs = Undefined\<rparr>"]
    init_workerName_required [of Undefined exampleNodeData]
  by (simp add: input_def exampleNodeData_def exampleInputs_def)

text \<open>
  Claim C10. When construction succeeds, the supervisor is present and the worker's
  \<^verbatim>\<open>parentSupervisorName\<close> is the literal \<open>supervisor\<close> if the supervisor's name is null or
  undefined, and the supervisor's name otherwise.
\<close>

theorem init_parentSupervisorName:
  assumes "init debug nodeData = Inr out"
  shows "\<exists>s. input nodeData in_supervisor = Val s
     \<and> parentSupervisorName out =
         (case sup_name s of Undefined \<Rightarrow> ''supervisor'' | Null \<Rightarrow> ''supervisor'' | Val n \<Rightarrow> n)"
  using assms
  by (auto simp: init_def Let_def split: nullable.splits sum.splits if_splits)

theorem init_parentSupervisorName_witness:
  "init Undefined exampleNodeData = Inr exampleOut \<and> parentSupervisorName exampleOut = ''supervisor''"
  using init_parentSupervisorName [OF init_example] init_example
  by (auto simp: exampleInput_simps exampleSupervisor_def)

section \<open>The model binding\<close>

text \<open>
  Claim C7. For a toolset with duplicate-free names, the model binding of
  \<^verbatim>\<open>createAgent\<close> is the model handle bound with one schema entry per tool, in the order
  of the toolset (entry \<open>i\<close> is the conversion of tool \<open>i\<close>, and the entries' names are the
  tools' names); for the empty toolset the handle is still bound, with the tools option
  \<^verbatim>\<open>undefined\<close>, and not left bare. Whenever \<^verbatim>\<open>createAgent\<close> returns an executor, this
  binding is the model stage of its agent, and with a model handle \<^verbatim>\<open>createAgent\<close> fails
  only where building the prompt fails, before the binding is made.
\<close>

theorem model_binding_entries:
  assumes "distinct (map tool_name tools)"
  shows "\<exists>entries.
       modelWithTools (Val l) tools =
         Inr (RunnableBinding l \<lparr>kw_tools = (if tools = [] then Undefined else Val entries)\<rparr>)
     \<and> length entries = length tools
     \<and> (\<forall>i < length tools. entries ! i = convertToOpenAITool (tools ! i))
     \<and> map (\<lambda>e. fn_name (tool_function e)) entries = map tool_name tools
     \<and> distinct (map (\<lambda>e. fn_name (tool_function e)) entries)
     \<and> (\<forall>ex. createAgent debug (Val l) tools systemPrompt maxIterations = Inr ex \<longrightarrow>
            opt_agent (executorInput ex) ! 2 =
              ModelWithTools (RunnableBinding l \<lparr>kw_tools = (if tools = [] then Undefined else Val entries)\<rparr>))
     \<and> (\<forall>e. createAgent debug (Val l) tools systemPrompt maxIterations = Inl e \<longrightarrow>
            fromMessages (prompt tools systemPrompt) = Inl e)"
proof -
  let ?entries = "map convertToOpenAITool tools"
  let ?binding = "RunnableBinding l \<lparr>kw_tools = (if tools = [] then Undefined else Val ?entries)\<rparr>"
  have names: "map (\<lambda>e. fn_name (tool_function e)) ?entries = map tool_name tools"
    by (simp add: convertToOpenAITool_def)
  have dist: "distinct (map (\<lambda>e. fn_name (tool_function e)) ?entries)"
    using assms by (simp only: names)
  have binding: "modelWithTools (Val l) tools = Inr ?binding"
    by (simp add: modelWithTools_def bind_def)
  have nth: "\<forall>i < length tools. ?entries ! i = convertToOpenAITool (tools ! i)"
    by simp
  have stage: "\<forall>ex. createAgent debug (Val l) tools systemPrompt maxIterations = Inr ex \<longrightarrow>
      opt_agent (executorInput ex) ! 2 = ModelWithTools ?binding"
    by (cases "fromMessages (prompt tools systemPrompt)") (auto simp: createAgent_Val)
  have fails: "\<forall>e. createAgent debug (Val l) tools systemPrompt maxIterations = Inl e \<longrightarrow>
      fromMessages (prompt tools systemPrompt) = Inl e"
    by (cases "fromMessages (prompt tools systemPrompt)") (auto simp: createAgent_Val)
  from binding nth names dist stage fails show ?thesis
    by (intro exI[of _ ?entries]) simp
qed

theorem model_binding_entries_witness:
  "distinct (map tool_name [searchTool, calculatorTool])
   \<and> modelWithTools (Val (ChatOpenAI ''gpt-4'')) [searchTool, calculatorTool]
      = Inr (RunnableBinding (ChatOpenAI ''gpt-4'')
               \<lparr>kw_tools = Val [convertToOpenAITool searchTool, convertToOpenAITool calculatorTool]\<rparr>)
   \<and> map_sum id ((\<lambda>fields. opt_agent fields ! 2) \<circ> executorInput)
        (createAgent Undefined (Val (ChatOpenAI ''gpt-4'')) [searchTool, calculatorTool]
           (Val ''You are a helper.'') Undefined)
      = Inr (ModelWithTools (RunnableBinding (ChatOpenAI ''gpt-4'')
               \<lparr>kw_tools = Val [convertToOpenAITool searchTool, convertToOpenAITool calculatorTool]\<rparr>))"
proof -
  have d: "distinct (map tool_name [searchTool, calculatorTool])"
    by (simp add: searchTool_def calculatorTool_def)
  obtain ex where ex:
    "createAgent Undefined (Val (ChatOpenAI ''gpt-4'')) [searchTool, calculatorTool]
       (Val ''You are a helper.'') Undefined = Inr ex"
    by (simp add: createAgent_Val prompt_helper)
  from model_binding_entries [OF d, of "ChatOpenAI ''gpt-4''" Undefined "Val ''You are a helper.''" Undefined]
  obtain entries where
    binding: "modelWithTools (Val (ChatOpenAI ''gpt-4'')) [searchTool, calculatorTool]
       = Inr (RunnableBinding (ChatOpenAI ''gpt-4'') \<lparr>kw_tools = Val entries\<rparr>)"
    and len: "length entries = 2"
    and nth: "\<forall>i < 2. entries ! i = convertToOpenAITool ([searchTool, calculatorTool] ! i)"
    and stage: "\<forall>ex. createAgent Undefined (Val (ChatOpenAI ''gpt-4'')) [searchTool, calculatorTool]
         (Val ''You are a helper.'') Undefined = Inr ex \<longrightarrow>
       opt_agent (executorInput ex) ! 2
         = ModelWithTools (RunnableBinding (ChatOpenAI ''gpt-4'') \<lparr>kw_tools = Val entries\<rparr>)"
    by auto
  from nth have "entries ! 0 = convertToOpenAITool searchTool" "entries ! 1 = convertToOpenAITool calculatorTool"
    by simp_all
  with len have "entries = [convertToOpenAITool searchTool, convertToOpenAITool calculatorTool]"
    by (cases entries; cases "tl entries") auto
  with d ex binding stage show ?thesis by simp
qed

section \<open>The worker node\<close>

text \<open>
  Claim C5. When the executor of a constructed worker succeeds on a team state, the
  worker node returns a delta with exactly one message: a human message whose content is
  the executor's output text and whose name is the configured worker name. The delta holds
  nothing else, and folding it into a team state appends that message to the existing
  ones, which are kept as they are.
\<close>

theorem workerNode_delta:
  assumes "init debug nodeData = Inr out"
    and "invoke (wn_agent (out_node out)) state config \<sigma> = (Inr result, \<sigma>')"
  shows "fst (workerNode invoke (out_node out) state config \<sigma>) =
           Inr \<lparr>delta_messages = [\<lparr>msg_type = Human, content = result_output result,
                                    msg_name = input nodeData in_workerName\<rparr>]\<rparr>
         \<and> messages (applyDelta s \<lparr>delta_messages = [\<lparr>msg_type = Human, content = result_output result,
                                    msg_name = input nodeData in_workerName\<rparr>]\<rparr>)
             = messages s @ [\<lparr>msg_type = Human, content = result_output result,
                                    msg_name = input nodeData in_workerName\<rparr>]"
  using init_Inr_name[OF assms(1)] assms(2)
  by (simp add: workerNode_def agentNode_def HumanMessage_def applyDelta_def)

theorem workerNode_delta_witness:
  "fst (workerNode (answering ''Summary: ...'' False) (out_node exampleOut) 0 (RunnableConfig []) exampleStore)
     = Inr \<lparr>delta_messages = [\<lparr>msg_type = Human, content = ''Summary: ...'', msg_name = Val ''researcher''\<rparr>]\<rparr>
   \<and> length (messages (applyDelta exampleState
        \<lparr>delta_messages = [\<lparr>msg_type = Human, content = ''Summary: ...'', msg_name = Val ''researcher''\<rparr>]\<rparr>)) = 2"
proof -
  have run: "answering ''Summary: ...'' False (wn_agent (out_node exampleOut)) 0 (RunnableConfig []) exampleStore
               = (Inr \<lparr>result_output = ''Summary: ...'', forced_stop = False\<rparr>, exampleStore)"
    by (simp add: answering_def)
  from workerNode_delta [where invoke = "answering ''Summary: ...'' False" and s = exampleState,
      OF init_example run]
  show ?thesis by (simp add: exampleInput_simps exampleState_def)
qed

text \<open>
  Claim C6. Invoking the worker node leaves the input team state unchanged. The node
  itself writes nothing: for any executor, the store of team states after the node is the
  store after the executor's call. The executor never mutates the history it is given, so
  for every store and every team state reference the store after the node is the store
  before it (no field of any team state, the input's message list included, has changed);
  the only effect is the returned delta.
\<close>

theorem workerNode_frame:
  "snd (workerNode invoke w state config \<sigma>) = snd (invoke (wn_agent w) state config \<sigma>)
   \<and> snd (workerNode (executorInvoke run) w state config \<sigma>) = \<sigma>
   \<and> snd (workerNode (executorInvoke run) w state config \<sigma>) state = \<sigma> state"
  by (simp add: workerNode_def agentNode_snd executorInvoke_def)

theorem workerNode_frame_witness:
  "snd (workerNode (executorInvoke (returning \<lparr>result_output = ''Summary: ...'', forced_stop = False\<rparr>))
          (out_node exampleOut) 0 (RunnableConfig []) exampleStore) 0
     = Some exampleState"
  using workerNode_frame [of "executorInvoke (returning \<lparr>result_output = ''Summary: ...'', forced_stop = False\<rparr>)"
      "out_node exampleOut" 0 "RunnableConfig []" exampleStore
      "returning \<lparr>result_output = ''Summary: ...'', forced_stop = False\<rparr>",
      THEN conjunct2, THEN conjunct2]
  by (simp add: exampleStore_def)

text \<open>
  Claim C8, as stated, fails. A run that exhausts a cap of one round ends in a forced
  stop, and a run whose model answers at once ends in a natural finish; the executor's
  results differ in the marker and have the same output text, and the worker node returns
  the same for both, so the marker is not observable in what the node returns.
\<close>

theorem forced_stop_not_observable:
  "runLoop alwaysSearch echoDispatch (Some 1) exampleState [] 0
     = Some (Inr (ForcedStop (Some searchAction),
                  [\<lparr>step_action = searchAction, step_observation = [''search: latest news'']\<rparr>], 1))
   \<and> runLoop answerStopped echoDispatch (Some 1) exampleState [] 0
       = Some (Inr (NaturalFinish stoppedText, [], 1))
   \<and> forced_stop (resultOf renderStopped (ForcedStop (Some searchAction)))
   \<and> \<not> forced_stop (resultOf renderStopped (NaturalFinish stoppedText))
   \<and> agentNode (executorInvoke (returning (resultOf renderStopped (ForcedStop (Some searchAction)))))
        (0, wn_agent (out_node exampleOut), ''researcher'') (RunnableConfig []) exampleStore
     = agentNode (executorInvoke (returning (resultOf renderStopped (NaturalFinish stoppedText))))
        (0, wn_agent (out_node exampleOut), ''researcher'') (RunnableConfig []) exampleStore"
proof -
  have marker: "forced_stop (resultOf renderStopped (ForcedStop (Some searchAction)))
      \<and> \<not> forced_stop (resultOf renderStopped (NaturalFinish stoppedText))"
    by (simp add: resultOf_def)
  have same: "agentNode (executorInvoke (returning (resultOf renderStopped (ForcedStop (Some searchAction)))))
        (0, wn_agent (out_node exampleOut), ''researcher'') (RunnableConfig []) exampleStore
     = agentNode (executorInvoke (returning (resultOf renderStopped (NaturalFinish stoppedText))))
        (0, wn_agent (out_node exampleOut), ''researcher'') (RunnableConfig []) exampleStore"
    by (simp add: resultOf_def renderStopped_def agentNode_def executorInvoke_def returning_def)
  from runLoop_search_once runLoop_answer_once marker same show ?thesis
    by blast
qed

text \<open>
  Claim C8, amended. For every invocation that terminates by exhausting the cap without a
  final answer, the result the executor surfaces carries a usable result (the last model
  output, as the text the executor reports for it) plus a marker that distinguishes a
  forced stop from a natural finish. What the worker node returns to the supervisor is
  one message whose content is that output text; the marker is not in it: a natural
  finish with the same output text makes the node return the same.
\<close>

theorem forced_stop_result_and_delta:
  assumes "runLoop model dispatch cap history [] 0 = Some (Inr (ForcedStop l, steps, rounds))"
  shows "l = lastAction steps
     \<and> resultOf render (ForcedStop l) = \<lparr>result_output = render (lastAction steps), forced_stop = True\<rparr>
     \<and> forced_stop (resultOf render (ForcedStop l)) \<noteq> forced_stop (resultOf render (NaturalFinish a))
     \<and> fst (agentNode (executorInvoke (returning (resultOf render (ForcedStop l))))
              (state, agent, name) config \<sigma>)
         = Inr \<lparr>delta_messages = [HumanMessage (render (lastAction steps)) name]\<rparr>
     \<and> agentNode (executorInvoke (returning (resultOf render (ForcedStop l))))
              (state, agent, name) config \<sigma>
         = agentNode (executorInvoke (returning (resultOf render (NaturalFinish (render l)))))
              (state, agent, name) config \<sigma>"
proof -
  from runLoop_forced_last [OF assms] have "l = lastAction steps" by simp
  then show ?thesis
    by (simp add: resultOf_def agentNode_def executorInvoke_def returning_def)
qed

theorem forced_stop_result_and_delta_witness:
  "runLoop alwaysSearch echoDispatch (Some 1) exampleState [] 0
     = Some (Inr (ForcedStop (Some searchAction),
                  [\<lparr>step_action = searchAction, step_observation = [''search: latest news'']\<rparr>], 1))
   \<and> resultOf renderStopped (ForcedStop (Some searchAction))
       = \<lparr>result_output = ''Agent stopped due to max iterations.'', forced_stop = True\<rparr>
   \<and> fst (agentNode (executorInvoke (returning (resultOf renderStopped (ForcedStop (Some searchAction)))))
            (0, wn_agent (out_node exampleOut), ''researcher'') (RunnableConfig []) exampleStore)
       = Inr \<lparr>delta_messages =
               [\<lparr>msg_type = Human, content = ''Agent stopped due to max iterations.'',
                 msg_name = Val ''researcher''\<rparr>]\<rparr>"
proof -
  note t = forced_stop_result_and_delta [OF runLoop_search_once, where render = renderStopped
      and state = 0 and agent = "wn_agent (out_node exampleOut)" and name = "''researcher''"
      and config = "RunnableConfig []" and \<sigma> = exampleStore and a = "''done''"]
  from t [THEN conjunct2, THEN conjunct1]
  have result: "resultOf renderStopped (ForcedStop (Some searchAction))
       = \<lparr>result_output = ''Agent stopped due to max iterations.'', forced_stop = True\<rparr>"
    by (simp add: renderStopped_def stoppedText_def)
  from t [THEN conjunct2, THEN conjunct2, THEN conjunct2, THEN conjunct1]
  have delta: "fst (agentNode (executorInvoke (returning (resultOf renderStopped (ForcedStop (Some searchAction)))))
            (0, wn_agent (out_node exampleOut), ''researcher'') (RunnableConfig []) exampleStore)
       = Inr \<lparr>delta_messages =
               [\<lparr>msg_type = Human, content = ''Agent stopped due to max iterations.'',
                 msg_name = Val ''researcher''\<rparr>]\<rparr>"
    by (simp add: renderStopped_def stoppedText_def HumanMessage_def)
  from runLoop_search_once result delta show ?thesis
    by blast
qed

section \<open>The iteration limit\<close>

text \<open>
  Claim C9. With a finite cap \<open>k\<close> and a model that requests a tool call on every round and
  never gives a final answer, the loop started on an empty scratchpad returns: it performs
  exactly \<open>k\<close> rounds (model invocations), leaves \<open>k\<close> steps in the scratchpad, and ends with
  a forced-stop result carrying the last model output.
\<close>

theorem runLoop_exact_rounds:
  assumes "\<And>h sp. \<exists>calls. model h sp = Inr (ToolInvocation calls)"
  shows "\<exists>steps. runLoop model dispatch (Some k) history [] 0
               = Some (Inr (ForcedStop (lastAction steps), steps, k)) \<and> length steps = k"
  using runLoop_forced [where model = model and sp = "[]" and k = k and dispatch = dispatch
      and h = history and n = 0, OF assms]
  by simp

theorem runLoop_exact_rounds_witness:
  "\<exists>steps. runLoop alwaysSearch echoDispatch (Some 2) exampleState [] 0
             = Some (Inr (ForcedStop (lastAction steps), steps, 2)) \<and> length steps = 2"
proof -
  have h: "\<And>h sp. \<exists>calls. alwaysSearch h sp = Inr (ToolInvocation calls)"
    by (simp add: alwaysSearch_def)
  from runLoop_exact_rounds [where model = alwaysSearch and dispatch = echoDispatch and k = 2
      and history = exampleState, OF h]
  show ?thesis .
qed

end
